theory Spec2Isabelle
  imports Complex_Main "HOL-Library.Word" "HOL-Library.Sublist"
begin

section \<open>Strings of the chat page\<close>

text \<open>
  The page \<^verbatim>\<open>web/app/page.tsx\<close> is a React client component. Its strings are
  JavaScript strings: sequences of 16-bit code units. A literal of the source is written
  \<open>lit ''...''\<close>; every literal of the page is ASCII.
\<close>

type_synonym code_unit = "16 word"
type_synonym jsstring = "code_unit list"

definition lit :: "string \<Rightarrow> jsstring" where
  "lit s = map of_char s"

text \<open>
  \<^verbatim>\<open>String.prototype.trim\<close> removes the leading and trailing code units that are
  WhiteSpace or LineTerminator in ECMAScript: TAB, LF, VT, FF, CR, SP, NBSP, U+1680,
  U+2000 to U+200A, U+2028, U+2029, U+202F, U+205F, U+3000 and U+FEFF.
\<close>

definition is_white_space :: "code_unit \<Rightarrow> bool" where
  "is_white_space c \<longleftrightarrow>
     c = 0x9 \<or> c = 0xA \<or> c = 0xB \<or> c = 0xC \<or> c = 0xD \<or> c = 0x20 \<or> c = 0xA0 \<or>
     c = 0x1680 \<or> (0x2000 \<le> c \<and> c \<le> 0x200A) \<or> c = 0x2028 \<or> c = 0x2029 \<or>
     c = 0x202F \<or> c = 0x205F \<or> c = 0x3000 \<or> c = 0xFEFF"

definition trim :: "jsstring \<Rightarrow> jsstring" where
  "trim s = rev (dropWhile is_white_space (rev (dropWhile is_white_space s)))"

text \<open>
  A template literal \<^verbatim>\<open>${resp.status}\<close> prints the number in decimal; a status is a
  non-negative integer.
\<close>

definition digit :: "nat \<Rightarrow> code_unit" where
  "digit d = of_nat (48 + d)"

fun toString :: "nat \<Rightarrow> jsstring" where
  "toString n = (if n < 10 then [digit n] else toString (n div 10) @ [digit (n mod 10)])"

declare toString.simps [simp del]

section \<open>Data model\<close>

text \<open>
  \<^verbatim>\<open>type ChatResponse\<close>: \<open>null\<close> is \<open>None\<close>; the optional field \<open>redacted\<close> is
  \<open>None\<close> when absent. A JSON number is a finite double, read here as the real it denotes.
\<close>

record ChatResponse =
  answer :: "jsstring option"
  confidence :: real
  sources :: "jsstring list"
  cached :: bool
  follow_up :: "jsstring option"
  redacted :: "bool option"

text \<open>
  \<^verbatim>\<open>type Message\<close>; the field \<open>from\<close> is \<^verbatim>\<open>"user" | "bot" | "system"\<close>. The
  optional \<open>meta\<close> is a \<^verbatim>\<open>Partial<ChatResponse>\<close>; the page only ever stores a
  reply with all its required fields there.
\<close>

datatype origin = User | Bot | System

record Message =
  msg_id :: jsstring
  msg_from :: origin
  msg_text :: jsstring
  msg_time :: jsstring
  msg_meta :: "ChatResponse option"

text \<open>The four \<^verbatim>\<open>useState\<close> cells of \<^verbatim>\<open>Page\<close>.\<close>

record State =
  question :: jsstring
  loading :: bool
  error :: "jsstring option"
  messages :: "Message list"

text \<open>
  What the page reads from its surroundings when it creates a message: the part of the id
  that \<^verbatim>\<open>Date.now\<close> and \<^verbatim>\<open>Math.random\<close> supply, and the locale time label.
\<close>

record env =
  stamp :: jsstring
  clock :: jsstring

definition makeId :: "jsstring \<Rightarrow> env \<Rightarrow> jsstring" where
  "makeId pfx e = pfx @ stamp e"

definition nowLabel :: "env \<Rightarrow> jsstring" where
  "nowLabel e = clock e"

section \<open>The network\<close>

text \<open>
  A thrown value, seen through the only thing the page reads of it: \<^verbatim>\<open>err?.message\<close>.
  \<^verbatim>\<open>new Error(m)\<close> is \<open>Thrown (Some m)\<close>.
\<close>

datatype thrown = Thrown "jsstring option"

fun message :: "thrown \<Rightarrow> jsstring option" where
  "message (Thrown m) = m"

text \<open>
  A response, seen through what the page reads of it: \<^verbatim>\<open>resp.ok\<close> (which the
  platform sets exactly for a status from 200 to 299), \<^verbatim>\<open>resp.status\<close>, and what
  \<^verbatim>\<open>await resp.text()\<close> and \<^verbatim>\<open>await resp.json()\<close> give: a value, or a rejection
  (\<open>Inl\<close>). The promise of \<^verbatim>\<open>fetch\<close> itself settles to \<open>thrown + Response\<close>.
\<close>

record Response =
  resp_ok :: bool
  resp_status :: nat
  resp_text :: "thrown + jsstring"
  resp_json :: "thrown + ChatResponse"

type_synonym fetch_result = "thrown + Response"

text \<open>The two requests the page sends, both to \<^verbatim>\<open>${API_BASE}/chat/\<close>.\<close>

datatype request =
  Get jsstring
| Post jsstring jsstring jsstring

section \<open>Effects\<close>

text \<open>
  A handler of the page is the sequence of state setters and network calls it performs, in
  program order. \<^verbatim>\<open>pushMessage\<close> is the only caller of \<^verbatim>\<open>setMessages\<close>, and it
  passes the updater \<^verbatim>\<open>(prev) => [...prev, msg]\<close>.
\<close>

datatype effect =
  SetQuestion jsstring
| SetLoading bool
| SetError "jsstring option"
| PushMessage Message
| Fetch request

definition pushMessage :: "Message \<Rightarrow> State \<Rightarrow> State" where
  "pushMessage msg s = s\<lparr>messages := messages s @ [msg]\<rparr>"

fun apply_effect :: "State \<Rightarrow> effect \<Rightarrow> State" where
  "apply_effect s (SetQuestion v) = s\<lparr>question := v\<rparr>"
| "apply_effect s (SetLoading b) = s\<lparr>loading := b\<rparr>"
| "apply_effect s (SetError e) = s\<lparr>error := e\<rparr>"
| "apply_effect s (PushMessage msg) = pushMessage msg s"
| "apply_effect s (Fetch r) = s"

definition run :: "State \<Rightarrow> effect list \<Rightarrow> State" where
  "run s es = foldl apply_effect s es"

text \<open>The effects a handler performs before it first calls \<^verbatim>\<open>fetch\<close>.\<close>

fun before_fetch :: "effect list \<Rightarrow> effect list" where
  "before_fetch [] = []"
| "before_fetch (Fetch r # es) = []"
| "before_fetch (x # es) = x # before_fetch es"

text \<open>The network calls and the messages pushed by a sequence of effects, in order.\<close>

fun requests :: "effect list \<Rightarrow> request list" where
  "requests [] = []"
| "requests (Fetch r # es) = r # requests es"
| "requests (x # es) = requests es"

fun pushed :: "effect list \<Rightarrow> Message list" where
  "pushed [] = []"
| "pushed (PushMessage msg # es) = msg # pushed es"
| "pushed (x # es) = pushed es"

section \<open>The greeting: \<^verbatim>\<open>fetchWelcome\<close>\<close>

definition chat_url :: "jsstring \<Rightarrow> jsstring" where
  "chat_url API_BASE = API_BASE @ lit ''/chat/''"

definition fetchWelcome_start :: "jsstring \<Rightarrow> effect list" where
  "fetchWelcome_start API_BASE = [Fetch (Get (chat_url API_BASE))]"

text \<open>\<^verbatim>\<open>data.answer || 'Hi there!'\<close>: \<open>null\<close> and the empty string are falsy.\<close>

definition welcomeText :: "ChatResponse \<Rightarrow> jsstring" where
  "welcomeText data =
     (case answer data of
        None \<Rightarrow> lit ''Hi there!''
      | Some a \<Rightarrow> if a = [] then lit ''Hi there!'' else a)"

text \<open>
  The \<^verbatim>\<open>try\<close> block of \<^verbatim>\<open>fetchWelcome\<close> from the point where the promise of
  \<^verbatim>\<open>fetch\<close> settles: \<open>Inl\<close> is what it throws, \<open>Inr\<close> the message it pushes.
\<close>

definition fetchWelcome_try :: "fetch_result \<Rightarrow> env \<Rightarrow> thrown + Message" where
  "fetchWelcome_try f e =
     (case f of
        Inl err \<Rightarrow> Inl err
      | Inr resp \<Rightarrow>
          if \<not> resp_ok resp then
            (case resp_text resp of
               Inl err \<Rightarrow> Inl err
             | Inr errorText \<Rightarrow>
                 Inl (Thrown (Some (lit ''Failed to fetch welcome: '' @ toString (resp_status resp)))))
          else
            (case resp_json resp of
               Inl err \<Rightarrow> Inl err
             | Inr data \<Rightarrow>
                 Inr \<lparr>msg_id = makeId (lit ''b_'') e, msg_from = Bot, msg_text = welcomeText data,
                      msg_time = nowLabel e, msg_meta = Some data\<rparr>))"

text \<open>
  The greeting of the \<^verbatim>\<open>catch\<close> block, as it stands between the outer quotes of the
  source's literal; the block writes it twice, as the text and as the answer.
\<close>

definition fallback_greeting :: jsstring where
  "fallback_greeting = lit ''Hi there! I'm Chatty, how can I assist you today?''"

definition fallback_welcome :: "env \<Rightarrow> Message" where
  "fallback_welcome e =
     \<lparr>msg_id = makeId (lit ''b_'') e, msg_from = Bot, msg_text = fallback_greeting,
      msg_time = nowLabel e,
      msg_meta = Some \<lparr>answer = Some fallback_greeting, confidence = 1.0, sources = [],
                        cached = False, follow_up = None, redacted = None\<rparr>\<rparr>"

definition fetchWelcome_settle :: "fetch_result \<Rightarrow> env \<Rightarrow> effect list" where
  "fetchWelcome_settle f e =
     (case fetchWelcome_try f e of
        Inr msg \<Rightarrow> [PushMessage msg]
      | Inl err \<Rightarrow> [PushMessage (fallback_welcome e)])"

section \<open>Sending a question: \<^verbatim>\<open>sendQuestion\<close>\<close>

text \<open>\<^verbatim>\<open>(q ?? question)\<close>: the argument unless it is \<open>undefined\<close>, else the draft.\<close>

definition effective_question :: "jsstring option \<Rightarrow> State \<Rightarrow> jsstring" where
  "effective_question q s = (case q of Some v \<Rightarrow> v | None \<Rightarrow> question s)"

text \<open>\<^verbatim>\<open>sendQuestion\<close> up to and including its call of \<^verbatim>\<open>fetch\<close>.\<close>

definition sendQuestion_start :: "jsstring \<Rightarrow> jsstring option \<Rightarrow> State \<Rightarrow> env \<Rightarrow> effect list" where
  "sendQuestion_start API_BASE q s e =
     (let questionText = trim (effective_question q s) in
      if questionText = [] then [SetError (Some (lit ''Please enter a question.''))]
      else
        [SetError None,
         SetLoading True,
         PushMessage \<lparr>msg_id = makeId (lit ''u_'') e, msg_from = User, msg_text = questionText,
                      msg_time = nowLabel e, msg_meta = None\<rparr>,
         SetQuestion [],
         Fetch (Post (chat_url API_BASE) (lit ''web_user'') questionText)])"

text \<open>\<^verbatim>\<open>data.answer ?? data.follow_up ?? "I don't know."\<close>\<close>

definition botText :: "ChatResponse \<Rightarrow> jsstring" where
  "botText data =
     (case answer data of
        Some a \<Rightarrow> a
      | None \<Rightarrow> (case follow_up data of Some fu \<Rightarrow> fu | None \<Rightarrow> lit ''I don't know.''))"

text \<open>The \<^verbatim>\<open>try\<close> block of \<^verbatim>\<open>sendQuestion\<close> from the point where \<^verbatim>\<open>fetch\<close> settles.\<close>

definition sendQuestion_try :: "fetch_result \<Rightarrow> env \<Rightarrow> thrown + Message" where
  "sendQuestion_try f e =
     (case f of
        Inl err \<Rightarrow> Inl err
      | Inr resp \<Rightarrow>
          if \<not> resp_ok resp then
            (case resp_text resp of
               Inl err \<Rightarrow> Inl err
             | Inr txt \<Rightarrow>
                 Inl (Thrown (Some (lit ''Server '' @ toString (resp_status resp) @ lit '': '' @ txt))))
          else
            (case resp_json resp of
               Inl err \<Rightarrow> Inl err
             | Inr data \<Rightarrow>
                 Inr \<lparr>msg_id = makeId (lit ''b_'') e, msg_from = Bot, msg_text = botText data,
                      msg_time = nowLabel e, msg_meta = Some data\<rparr>))"

text \<open>\<^verbatim>\<open>err?.message ?? "Unknown error"\<close>\<close>

definition error_message :: "thrown \<Rightarrow> jsstring" where
  "error_message err = (case message err of Some m \<Rightarrow> m | None \<Rightarrow> lit ''Unknown error'')"

text \<open>The \<^verbatim>\<open>try\<close>, \<^verbatim>\<open>catch\<close> and \<^verbatim>\<open>finally\<close> of \<^verbatim>\<open>sendQuestion\<close> once \<^verbatim>\<open>fetch\<close> has settled.\<close>

definition sendQuestion_settle :: "fetch_result \<Rightarrow> env \<Rightarrow> effect list" where
  "sendQuestion_settle f e =
     (case sendQuestion_try f e of
        Inr botMsg \<Rightarrow> [PushMessage botMsg]
      | Inl err \<Rightarrow>
          [SetError (Some (error_message err)),
           PushMessage \<lparr>msg_id = makeId (lit ''s_'') e, msg_from = System,
                        msg_text = lit ''Error: '' @ error_message err,
                        msg_time = nowLabel e, msg_meta = None\<rparr>])
     @ [SetLoading False]"

text \<open>
  The whole of \<^verbatim>\<open>sendQuestion\<close> when nothing else happens while the request is in
  flight: \<open>f\<close> is how \<^verbatim>\<open>fetch\<close> settles, \<open>e\<close> and \<open>e'\<close> the surroundings
  before and after.
\<close>

definition sendQuestion :: "jsstring \<Rightarrow> jsstring option \<Rightarrow> State \<Rightarrow> env \<Rightarrow> fetch_result \<Rightarrow> env \<Rightarrow> effect list" where
  "sendQuestion API_BASE q s e f e' =
     (if trim (effective_question q s) = [] then sendQuestion_start API_BASE q s e
      else sendQuestion_start API_BASE q s e @ sendQuestion_settle f e')"

section \<open>The other handlers\<close>

definition onKeyDown :: "jsstring \<Rightarrow> jsstring \<Rightarrow> bool \<Rightarrow> State \<Rightarrow> env \<Rightarrow> effect list" where
  "onKeyDown API_BASE key shiftKey s e =
     (if key = lit ''Enter'' \<and> \<not> shiftKey then
        (if \<not> loading s then sendQuestion_start API_BASE None s e else [])
      else [])"

definition handleFollowUpClick :: "jsstring \<Rightarrow> jsstring \<Rightarrow> State \<Rightarrow> env \<Rightarrow> effect list" where
  "handleFollowUpClick API_BASE follow s e = sendQuestion_start API_BASE (Some follow) s e"

text \<open>
  \<^verbatim>\<open>renderMessage\<close> shows the follow-up button under \<^verbatim>\<open>isBot && m.meta?.follow_up\<close>:
  a bot message whose metadata has a follow-up that is neither \<open>null\<close> nor empty. The
  button calls \<^verbatim>\<open>handleFollowUpClick\<close> with that text.
\<close>

definition rendered_follow_up :: "Message \<Rightarrow> jsstring option" where
  "rendered_follow_up m =
     (if msg_from m = Bot then
        (case msg_meta m of
           None \<Rightarrow> None
         | Some d \<Rightarrow> (case follow_up d of None \<Rightarrow> None | Some fu \<Rightarrow> if fu = [] then None else Some fu))
      else None)"

text \<open>
  Everything that can happen to a mounted page: the mount itself, the two promises
  settling, and the user's actions on the composer and on a follow-up button.
\<close>

datatype event =
  Mounted
| WelcomeSettled fetch_result env
| InputChanged jsstring
| ClearClicked
| SendClicked env
| KeyPressed jsstring bool env
| FollowUpClicked jsstring env
| SendSettled fetch_result env

fun handle :: "jsstring \<Rightarrow> State \<Rightarrow> event \<Rightarrow> effect list" where
  "handle API_BASE s Mounted = fetchWelcome_start API_BASE"
| "handle API_BASE s (WelcomeSettled f e) = fetchWelcome_settle f e"
| "handle API_BASE s (InputChanged v) = [SetQuestion v]"
| "handle API_BASE s ClearClicked = [SetQuestion []]"
| "handle API_BASE s (SendClicked e) = sendQuestion_start API_BASE None s e"
| "handle API_BASE s (KeyPressed key shiftKey e) = onKeyDown API_BASE key shiftKey s e"
| "handle API_BASE s (FollowUpClicked follow e) = handleFollowUpClick API_BASE follow s e"
| "handle API_BASE s (SendSettled f e) = sendQuestion_settle f e"

definition step :: "jsstring \<Rightarrow> State \<Rightarrow> event \<Rightarrow> State" where
  "step API_BASE s ev = run s (handle API_BASE s ev)"

definition session :: "jsstring \<Rightarrow> State \<Rightarrow> event list \<Rightarrow> State" where
  "session API_BASE s evs = foldl (step API_BASE) s evs"

text \<open>The messages pushed over a sequence of events, in the order of the pushes.\<close>

fun appended :: "jsstring \<Rightarrow> State \<Rightarrow> event list \<Rightarrow> Message list" where
  "appended API_BASE s [] = []"
| "appended API_BASE s (ev # evs) =
     pushed (handle API_BASE s ev) @ appended API_BASE (step API_BASE s ev) evs"

definition initial :: State where
  "initial = \<lparr>question = [], loading = False, error = None, messages = []\<rparr>"

section \<open>Outcomes of a request\<close>

text \<open>
  A request succeeds when the promise of \<^verbatim>\<open>fetch\<close> resolves, the response is ok and its
  body parses as a reply. It fails otherwise: on a network error, on a status that is not
  ok, or on a body that cannot be read.
\<close>

definition succeeded :: "fetch_result \<Rightarrow> bool" where
  "succeeded f =
     (case f of
        Inl err \<Rightarrow> False
      | Inr resp \<Rightarrow> resp_ok resp \<and> (case resp_json resp of Inl err \<Rightarrow> False | Inr data \<Rightarrow> True))"

text \<open>
  The error message of a request that failed: what \<^verbatim>\<open>err?.message ?? "Unknown error"\<close>
  reads of the value thrown, which is \<^verbatim>\<open>Server <status>: <body>\<close> for a response that
  is not ok and whose body text was read, and the underlying error otherwise. A request
  that succeeded has none.
\<close>

definition failure_message :: "fetch_result \<Rightarrow> jsstring option" where
  "failure_message f =
     (case f of
        Inl err \<Rightarrow> Some (error_message err)
      | Inr resp \<Rightarrow>
          if \<not> resp_ok resp then
            (case resp_text resp of
               Inl err \<Rightarrow> Some (error_message err)
             | Inr txt \<Rightarrow> Some (lit ''Server '' @ toString (resp_status resp) @ lit '': '' @ txt))
          else
            (case resp_json resp of
               Inl err \<Rightarrow> Some (error_message err)
             | Inr data \<Rightarrow> None))"

section \<open>Sample inputs\<close>

definition sample_env :: env where
  "sample_env = \<lparr>stamp = lit ''k3x9a1b2c'', clock = lit ''10:15:00''\<rparr>"

definition later_env :: env where
  "later_env = \<lparr>stamp = lit ''k3x9b7d4e'', clock = lit ''10:15:02''\<rparr>"

definition sample_base :: jsstring where
  "sample_base = lit ''http://127.0.0.1:8000''"

definition sample_reply :: ChatResponse where
  "sample_reply =
     \<lparr>answer = None, confidence = 0.5, sources = [], cached = False,
      follow_up = Some (lit ''Which plan?''), redacted = None\<rparr>"

definition ok_response :: Response where
  "ok_response =
     \<lparr>resp_ok = True, resp_status = 200, resp_text = Inr [], resp_json = Inr sample_reply\<rparr>"

definition error_response :: Response where
  "error_response =
     \<lparr>resp_ok = False, resp_status = 500, resp_text = Inr (lit ''boom''),
      resp_json = Inl (Thrown (Some (lit ''Unexpected token'')))\<rparr>"

text \<open>A response that is not ok and whose body cannot be read.\<close>

definition unreadable_response :: Response where
  "unreadable_response =
     \<lparr>resp_ok = False, resp_status = 502, resp_text = Inl (Thrown (Some (lit ''body stream error''))),
      resp_json = Inl (Thrown (Some (lit ''body stream error'')))\<rparr>"

text \<open>A question sent while the greeting request is still pending, which then fails.\<close>

definition early_send :: "event list" where
  "early_send =
     [Mounted, InputChanged (lit ''hi''), SendClicked sample_env,
      WelcomeSettled (Inr error_response) later_env]"

text \<open>A bot turn whose reply carries a follow-up that starts with a space.\<close>

definition padded_turn :: Message where
  "padded_turn =
     \<lparr>msg_id = lit ''b_k3x9a1b2c'', msg_from = Bot, msg_text = lit ''Tell me more.'',
      msg_time = lit ''10:14:58'',
      msg_meta = Some \<lparr>answer = Some (lit ''Tell me more.''), confidence = 0.5, sources = [],
                        cached = False, follow_up = Some (lit '' Which plan?''),
                        redacted = None\<rparr>\<rparr>"

text \<open>The page after the fallback greeting, and a short exchange that follows it.\<close>

definition greeted :: State where
  "greeted = run initial (fetchWelcome_settle (Inr error_response) sample_env)"

definition exchange :: "event list" where
  "exchange =
     [InputChanged (lit ''hi''), SendClicked sample_env, ClearClicked,
      SendSettled (Inr ok_response) later_env]"

section \<open>Auxiliary facts\<close>

lemma messages_run: "messages (run s es) = messages s @ pushed es"
  unfolding run_def
proof (induction es arbitrary: s)
  case Nil
  show ?case by simp
next
  case (Cons x es)
  show ?case by (cases x) (simp_all add: Cons.IH pushMessage_def)
qed

lemma trim_blank: "trim s = [] \<longleftrightarrow> list_all is_white_space s"
proof
  assume "trim s = []"
  then have "dropWhile is_white_space (rev (dropWhile is_white_space s)) = []"
    by (simp add: trim_def)
  then have all: "\<forall>c \<in> set (dropWhile is_white_space s). is_white_space c"
    by simp
  have "dropWhile is_white_space s = []"
  proof (rule ccontr)
    assume ne: "dropWhile is_white_space s \<noteq> []"
    then have "\<not> is_white_space (hd (dropWhile is_white_space s))"
      by (rule hd_dropWhile)
    moreover from ne have "hd (dropWhile is_white_space s) \<in> set (dropWhile is_white_space s)"
      by (rule hd_in_set)
    ultimately show False using all by blast
  qed
  then show "list_all is_white_space s"
    by (simp only: dropWhile_eq_Nil_conv list_all_iff)
next
  assume "list_all is_white_space s"
  then have d: "dropWhile is_white_space s = []" by (simp add: list_all_iff)
  show "trim s = []" unfolding trim_def d by simp
qed

lemma trim_hello: "trim (lit ''  hello '') = lit ''hello''"
  by (simp add: trim_def lit_def is_white_space_def)

lemma sendQuestion_start_nonblank:
  assumes "trim (effective_question q s) \<noteq> []"
  shows "sendQuestion_start API_BASE q s e =
     [SetError None, SetLoading True,
      PushMessage \<lparr>msg_id = makeId (lit ''u_'') e, msg_from = User,
                   msg_text = trim (effective_question q s),
                   msg_time = nowLabel e, msg_meta = None\<rparr>,
      SetQuestion [],
      Fetch (Post (chat_url API_BASE) (lit ''web_user'') (trim (effective_question q s)))]"
  using assms by (simp add: sendQuestion_start_def Let_def)

lemma sendQuestion_start_blank:
  assumes "trim (effective_question q s) = []"
  shows "sendQuestion_start API_BASE q s e = [SetError (Some (lit ''Please enter a question.''))]"
  using assms by (simp add: sendQuestion_start_def Let_def)

lemma sendQuestion_try_ok:
  assumes "resp_ok resp" and "resp_json resp = Inr data"
  shows "sendQuestion_try (Inr resp) e =
     Inr \<lparr>msg_id = makeId (lit ''b_'') e, msg_from = Bot, msg_text = botText data,
          msg_time = nowLabel e, msg_meta = Some data\<rparr>"
  using assms by (simp add: sendQuestion_try_def)

lemma sendQuestion_try_cases:
  "(succeeded f \<and> (\<exists>m. sendQuestion_try f e = Inr m \<and> msg_from m = Bot)) \<or>
   (\<not> succeeded f \<and> (\<exists>err. sendQuestion_try f e = Inl err))"
  by (auto simp: succeeded_def sendQuestion_try_def split: sum.splits)

lemma pushed_settle:
  "\<exists>m. pushed (sendQuestion_settle f e) = [m] \<and> msg_from m = (if succeeded f then Bot else System)"
  using sendQuestion_try_cases [of f e]
  by (auto simp: sendQuestion_settle_def)

lemma fetchWelcome_try_failed:
  assumes "\<not> succeeded f"
  shows "\<exists>err. fetchWelcome_try f e = Inl err"
  using assms by (auto simp: succeeded_def fetchWelcome_try_def split: sum.splits)

lemma messages_step: "messages (step API_BASE s ev) = messages s @ pushed (handle API_BASE s ev)"
  by (simp add: step_def messages_run)

lemma messages_session:
  "messages (session API_BASE s evs) = messages s @ appended API_BASE s evs"
  unfolding session_def
proof (induction evs arbitrary: s)
  case Nil
  show ?case by simp
next
  case (Cons ev evs)
  show ?case by (simp add: Cons.IH messages_step)
qed

lemma greeted_messages: "messages greeted = [fallback_welcome sample_env]"
  by (simp add: greeted_def fetchWelcome_settle_def fetchWelcome_try_def error_response_def
      run_def pushMessage_def initial_def)

lemma exchange_origins: "map msg_from (appended sample_base greeted exchange) = [User, Bot]"
  by (simp add: exchange_def step_def run_def sendQuestion_start_def effective_question_def
      trim_def lit_def is_white_space_def Let_def sendQuestion_settle_def sendQuestion_try_def
      ok_response_def pushMessage_def)

lemma toString_500: "toString 500 = lit ''500''"
  by (simp add: toString.simps digit_def lit_def)

lemma sendQuestion_settle_failed:
  assumes "sendQuestion_try f e = Inl (Thrown (Some t))"
  shows "sendQuestion_settle f e =
     [SetError (Some t),
      PushMessage \<lparr>msg_id = makeId (lit ''s_'') e, msg_from = System,
                   msg_text = lit ''Error: '' @ t, msg_time = nowLabel e, msg_meta = None\<rparr>,
      SetLoading False]"
  by (simp add: sendQuestion_settle_def assms error_message_def)

lemma trim_plan: "trim (lit '' Which plan?'') = lit ''Which plan?''"
  by (simp add: trim_def lit_def is_white_space_def)

lemma sendQuestion_start_ignores_draft:
  "sendQuestion_start API_BASE (Some v) (s\<lparr>question := draft\<rparr>) e = sendQuestion_start API_BASE (Some v) s e"
  by (simp add: sendQuestion_start_def effective_question_def)

lemma requests_start:
  "requests (sendQuestion_start API_BASE q s e) =
     (if trim (effective_question q s) = [] then []
      else [Post (chat_url API_BASE) (lit ''web_user'') (trim (effective_question q s))])"
  by (simp add: sendQuestion_start_def Let_def)

lemma pushed_start:
  "pushed (sendQuestion_start API_BASE q s e) =
     (if trim (effective_question q s) = [] then []
      else [\<lparr>msg_id = makeId (lit ''u_'') e, msg_from = User,
              msg_text = trim (effective_question q s),
              msg_time = nowLabel e, msg_meta = None\<rparr>])"
  by (simp add: sendQuestion_start_def Let_def)

lemma rendered_padded: "rendered_follow_up padded_turn = Some (lit '' Which plan?'')"
  by (simp add: rendered_follow_up_def padded_turn_def) (simp add: lit_def)

lemma trim_decomp:
  "\<exists>a b. x = a @ trim x @ b \<and> list_all is_white_space a \<and> list_all is_white_space b"
proof -
  let ?P = is_white_space
  let ?d = "dropWhile ?P x"
  have 1: "x = takeWhile ?P x @ ?d"
    by (simp only: takeWhile_dropWhile_id)
  have "rev (dropWhile ?P (rev ?d)) @ rev (takeWhile ?P (rev ?d))
          = rev (takeWhile ?P (rev ?d) @ dropWhile ?P (rev ?d))"
    by (simp only: rev_append)
  also have "\<dots> = rev (rev ?d)"
    by (simp only: takeWhile_dropWhile_id)
  also have "\<dots> = ?d"
    by (simp only: rev_rev_ident)
  finally have 2: "?d = trim x @ rev (takeWhile ?P (rev ?d))"
    by (simp only: trim_def)
  have a: "list_all ?P (takeWhile ?P x)"
    unfolding list_all_iff by (blast dest: set_takeWhileD)
  have b: "list_all ?P (rev (takeWhile ?P (rev ?d)))"
    unfolding list_all_iff set_rev by (blast dest: set_takeWhileD)
  from 1 2 have "x = takeWhile ?P x @ trim x @ rev (takeWhile ?P (rev ?d))"
    by (simp only:)
  with a b show ?thesis by blast
qed

lemma trim_ends:
  assumes "trim x \<noteq> []"
  shows "\<not> is_white_space (hd (trim x)) \<and> \<not> is_white_space (last (trim x))"
proof -
  let ?P = is_white_space
  let ?d = "dropWhile ?P x"
  let ?r = "dropWhile ?P (rev ?d)"
  have t: "trim x = rev ?r" by (simp only: trim_def)
  from assms have r: "?r \<noteq> []" unfolding t by (simp only: rev_is_Nil_conv not_False_eq_True)
  then have "\<not> ?P (hd ?r)" by (rule hd_dropWhile)
  moreover have "last (rev ?r) = hd ?r" by (rule last_rev)
  ultimately have l: "\<not> ?P (last (trim x))"
    unfolding t by (simp only: simp_thms)
  have d: "?d \<noteq> []"
  proof
    assume e: "?d = []"
    have "dropWhile ?P (rev []) = []" by simp
    with r show False unfolding e by (simp only:)
  qed
  then have hd: "\<not> ?P (hd ?d)" by (rule hd_dropWhile)
  have "rev ?d = takeWhile ?P (rev ?d) @ ?r"
    by (simp only: takeWhile_dropWhile_id)
  then have "last (rev ?d) = last (takeWhile ?P (rev ?d) @ ?r)"
    by (simp only:)
  also have "\<dots> = last ?r"
    using r by (rule last_appendR)
  finally have "last ?r = hd ?d"
    by (simp only: last_rev)
  then have "hd (trim x) = hd ?d"
    unfolding t by (simp only: hd_rev)
  with hd l show ?thesis by (simp only: simp_thms)
qed

lemma dropWhile_hd_id:
  assumes "xs \<noteq> []" and "\<not> P (hd xs)"
  shows "dropWhile P xs = xs"
  using assms by (cases xs) simp_all

lemma trim_idem: "trim (trim x) = trim x"
proof (cases "trim x = []")
  case True
  have "trim [] = []" by (simp add: trim_def)
  with True show ?thesis by (simp only:)
next
  case False
  from trim_ends [OF False]
  have h: "\<not> is_white_space (hd (trim x))" and l: "\<not> is_white_space (last (trim x))"
    by (simp_all only: simp_thms)
  from False h have 1: "dropWhile is_white_space (trim x) = trim x"
    by (rule dropWhile_hd_id)
  from False have ne: "rev (trim x) \<noteq> []" by (simp only: rev_is_Nil_conv not_False_eq_True)
  have "hd (rev (trim x)) = last (trim x)" by (rule hd_rev)
  with l have "\<not> is_white_space (hd (rev (trim x)))"
    by (simp only: simp_thms)
  with ne have 2: "dropWhile is_white_space (rev (trim x)) = rev (trim x)"
    by (rule dropWhile_hd_id)
  show ?thesis
    unfolding trim_def [of "trim x"] 1 2 by (simp only: rev_rev_ident)
qed

lemma pushed_append: "pushed (es @ es') = pushed es @ pushed es'"
  by (induction es rule: pushed.induct) simp_all

lemma user_pushed_settle:
  "filter (\<lambda>m. msg_from m = User) (pushed (sendQuestion_settle f e)) = []"
  by (simp add: sendQuestion_settle_def sendQuestion_try_def split: sum.splits)

lemma fetchWelcome_try_ok:
  assumes "resp_ok resp" and "resp_json resp = Inr data"
  shows "fetchWelcome_try (Inr resp) e =
     Inr \<lparr>msg_id = makeId (lit ''b_'') e, msg_from = Bot, msg_text = welcomeText data,
          msg_time = nowLabel e, msg_meta = Some data\<rparr>"
  using assms by (simp add: fetchWelcome_try_def)

lemma welcomeText_follow_up: "welcomeText (data\<lparr>follow_up := fu\<rparr>) = welcomeText data"
  by (simp add: welcomeText_def)

lemma hi_not_unknown: "lit ''Hi there!'' \<noteq> lit ''I don't know.''"
proof -
  have "length (lit ''Hi there!'') \<noteq> length (lit ''I don't know.'')"
    by (simp add: lit_def)
  then show ?thesis by auto
qed

lemma welcomeText_unknown:
  "welcomeText data = lit ''I don't know.'' \<longleftrightarrow> answer data = Some (lit ''I don't know.'')"
proof (cases "answer data")
  case None
  then show ?thesis using hi_not_unknown by (simp add: welcomeText_def)
next
  case (Some a)
  have "lit ''I don't know.'' \<noteq> []" by (simp add: lit_def)
  with Some show ?thesis using hi_not_unknown by (auto simp: welcomeText_def)
qed

lemma sendQuestion_nonblank:
  assumes "trim (effective_question q s) \<noteq> []"
  shows "sendQuestion API_BASE q s e f e' =
           sendQuestion_start API_BASE q s e @ sendQuestion_settle f e'"
  using assms by (simp add: sendQuestion_def)

lemma sendQuestion_blank:
  assumes "trim (effective_question q s) = []"
  shows "sendQuestion API_BASE q s e f e' = [SetError (Some (lit ''Please enter a question.''))]"
  using assms by (simp add: sendQuestion_def sendQuestion_start_blank)

lemma requests_settle: "requests (sendQuestion_settle f e) = []"
  by (simp add: sendQuestion_settle_def split: sum.splits)

lemma requests_append: "requests (es @ es') = requests es @ requests es'"
  by (induction es rule: requests.induct) simp_all

lemma sendQuestion_try_failed:
  assumes "\<not> succeeded f"
  shows "\<exists>err. sendQuestion_try f e = Inl err \<and> failure_message f = Some (error_message err)"
  using assms
  by (auto simp: succeeded_def sendQuestion_try_def failure_message_def error_message_def
      split: sum.splits)

lemma sendQuestion_settle_thrown:
  assumes "sendQuestion_try f e = Inl err"
  shows "sendQuestion_settle f e =
     [SetError (Some (error_message err)),
      PushMessage \<lparr>msg_id = makeId (lit ''s_'') e, msg_from = System,
                   msg_text = lit ''Error: '' @ error_message err, msg_time = nowLabel e,
                   msg_meta = None\<rparr>,
      SetLoading False]"
  by (simp add: sendQuestion_settle_def assms)

lemma early_send_store:
  "messages (session sample_base initial early_send) =
     [\<lparr>msg_id = makeId (lit ''u_'') sample_env, msg_from = User, msg_text = lit ''hi'',
       msg_time = nowLabel sample_env, msg_meta = None\<rparr>,
      fallback_welcome later_env]"
proof -
  have t: "trim (lit ''hi'') = lit ''hi''"
    by (simp add: trim_def lit_def is_white_space_def)
  have ne: "lit ''hi'' \<noteq> []" by (simp add: lit_def)
  have w: "fetchWelcome_settle (Inr error_response) later_env = [PushMessage (fallback_welcome later_env)]"
    by (simp add: fetchWelcome_settle_def fetchWelcome_try_def error_response_def)
  show ?thesis
    using ne
    by (simp add: early_send_def session_def step_def run_def fetchWelcome_start_def
        sendQuestion_start_def effective_question_def t Let_def w pushMessage_def initial_def)
qed

section \<open>Properties of the page\<close>

text \<open>
  C1. When the trimmed input is not empty, a call of \<^verbatim>\<open>sendQuestion\<close> pushes exactly
  two turns. The first, of origin \<open>user\<close>, is the only one pushed before the call of
  \<^verbatim>\<open>fetch\<close>, and \<^verbatim>\<open>fetch\<close> is called once. The second is pushed when the request
  settles: a \<open>bot\<close> turn if the request succeeded and a \<open>system\<close> turn if it failed.
  The part of the call that runs after the request settles pushes that one turn whatever
  the state has become by then.
\<close>

theorem sendQuestion_turn_count:
  assumes "trim (effective_question q s) \<noteq> []"
  shows "\<exists>u m. msg_from u = User \<and>
           msg_from m = (if succeeded f then Bot else System) \<and>
           pushed (before_fetch (sendQuestion API_BASE q s e f e')) = [u] \<and>
           messages (run s (before_fetch (sendQuestion API_BASE q s e f e'))) = messages s @ [u] \<and>
           length (requests (sendQuestion API_BASE q s e f e')) = 1 \<and>
           pushed (sendQuestion API_BASE q s e f e') = [u, m] \<and>
           messages (run s (sendQuestion API_BASE q s e f e')) = messages s @ [u, m] \<and>
           sendQuestion API_BASE q s e f e' =
             sendQuestion_start API_BASE q s e @ sendQuestion_settle f e' \<and>
           pushed (before_fetch (sendQuestion_start API_BASE q s e)) = [u] \<and>
           messages (run s (before_fetch (sendQuestion_start API_BASE q s e))) = messages s @ [u] \<and>
           pushed (sendQuestion_start API_BASE q s e) = [u] \<and>
           length (requests (sendQuestion_start API_BASE q s e)) = 1 \<and>
           pushed (sendQuestion_settle f e') = [m] \<and>
           messages (run s' (sendQuestion_settle f e')) = messages s' @ [m]"
proof -
  let ?u = "\<lparr>msg_id = makeId (lit ''u_'') e, msg_from = User,
             msg_text = trim (effective_question q s), msg_time = nowLabel e, msg_meta = None\<rparr>"
  note st = sendQuestion_start_nonblank [OF assms, of API_BASE e]
  note full = sendQuestion_nonblank [OF assms, of API_BASE e f e']
  from pushed_settle [of f e'] obtain m where
    m: "pushed (sendQuestion_settle f e') = [m]" "msg_from m = (if succeeded f then Bot else System)"
    by blast
  have u: "msg_from ?u = User" by simp
  have s1: "pushed (before_fetch (sendQuestion_start API_BASE q s e)) = [?u]"
    by (simp add: st)
  have s2: "messages (run s (before_fetch (sendQuestion_start API_BASE q s e))) = messages s @ [?u]"
    by (simp add: messages_run s1)
  have s3: "pushed (sendQuestion_start API_BASE q s e) = [?u]"
    by (simp add: st)
  have s4: "length (requests (sendQuestion_start API_BASE q s e)) = 1"
    by (simp add: st)
  have bf: "before_fetch (sendQuestion API_BASE q s e f e') = before_fetch (sendQuestion_start API_BASE q s e)"
    by (simp add: full) (simp add: st)
  have f1: "pushed (before_fetch (sendQuestion API_BASE q s e f e')) = [?u]"
    by (simp only: bf s1)
  have f2: "messages (run s (before_fetch (sendQuestion API_BASE q s e f e'))) = messages s @ [?u]"
    by (simp only: bf s2)
  have f3: "length (requests (sendQuestion API_BASE q s e f e')) = 1"
    by (simp add: full requests_append requests_settle s4)
  have f4: "pushed (sendQuestion API_BASE q s e f e') = [?u, m]"
    by (simp add: full pushed_append s3 m(1))
  have f5: "messages (run s (sendQuestion API_BASE q s e f e')) = messages s @ [?u, m]"
    by (simp add: messages_run f4)
  have t1: "messages (run s' (sendQuestion_settle f e')) = messages s' @ [m]"
    by (simp add: messages_run m(1))
  from u m f1 f2 f3 f4 f5 full s1 s2 s3 s4 t1 show ?thesis by blast
qed

theorem sendQuestion_turn_count_witness:
  "trim (effective_question (Some (lit ''  hello '')) initial) \<noteq> [] \<and>
   map msg_from (pushed (before_fetch
       (sendQuestion sample_base (Some (lit ''  hello '')) initial sample_env (Inr error_response) later_env)))
     = [User] \<and>
   length (requests
       (sendQuestion sample_base (Some (lit ''  hello '')) initial sample_env (Inr error_response) later_env))
     = 1 \<and>
   map msg_from (pushed
       (sendQuestion sample_base (Some (lit ''  hello '')) initial sample_env (Inr error_response) later_env))
     = [User, System] \<and>
   map msg_from (messages (run initial
       (sendQuestion sample_base (Some (lit ''  hello '')) initial sample_env (Inr error_response) later_env)))
     = [User, System]"
proof -
  have h: "trim (effective_question (Some (lit ''  hello '')) initial) \<noteq> []"
    by (simp add: effective_question_def trim_hello) (simp add: lit_def)
  have o: "(if succeeded (Inr error_response) then Bot else System) = System"
    by (simp add: succeeded_def error_response_def)
  have i: "messages initial = []" by (simp add: initial_def)
  from sendQuestion_turn_count [OF h, of "Inr error_response" sample_base sample_env later_env initial]
  obtain u m where
    "msg_from u = User" "msg_from m = System"
    "pushed (before_fetch
       (sendQuestion sample_base (Some (lit ''  hello '')) initial sample_env (Inr error_response) later_env)) = [u]"
    "length (requests
       (sendQuestion sample_base (Some (lit ''  hello '')) initial sample_env (Inr error_response) later_env)) = 1"
    "pushed
       (sendQuestion sample_base (Some (lit ''  hello '')) initial sample_env (Inr error_response) later_env) = [u, m]"
    "messages (run initial
       (sendQuestion sample_base (Some (lit ''  hello '')) initial sample_env (Inr error_response) later_env))
       = messages initial @ [u, m]"
    unfolding o by blast
  with h i show ?thesis by simp
qed

text \<open>
  C2. After a successful request whose body parsed to the reply \<open>data\<close>, the bot turn
  shows the reply's \<open>answer\<close> when it is not \<open>null\<close>, otherwise its \<open>follow_up\<close>
  when that is not \<open>null\<close>, otherwise the literal \<^verbatim>\<open>I don't know.\<close>; in each case
  the whole reply is the turn's metadata.
\<close>

theorem bot_turn_text:
  assumes "resp_ok resp" and "resp_json resp = Inr data"
  shows "\<exists>m. sendQuestion_settle (Inr resp) e = [PushMessage m, SetLoading False] \<and>
            msg_from m = Bot \<and>
            msg_text m =
              (case answer data of
                 Some a \<Rightarrow> a
               | None \<Rightarrow> (case follow_up data of Some fu \<Rightarrow> fu | None \<Rightarrow> lit ''I don't know.'')) \<and>
            msg_meta m = Some data"
  by (simp add: sendQuestion_settle_def sendQuestion_try_ok [OF assms] botText_def)

theorem bot_turn_text_witness:
  "resp_ok ok_response \<and> resp_json ok_response = Inr sample_reply \<and>
   (\<exists>m. sendQuestion_settle (Inr ok_response) later_env = [PushMessage m, SetLoading False] \<and>
        msg_from m = Bot \<and> msg_text m = lit ''Which plan?'' \<and> msg_meta m = Some sample_reply)"
proof -
  have h1: "resp_ok ok_response" by (simp add: ok_response_def)
  have h2: "resp_json ok_response = Inr sample_reply" by (simp add: ok_response_def)
  have "answer sample_reply = None" and "follow_up sample_reply = Some (lit ''Which plan?'')"
    by (simp_all add: sample_reply_def)
  with bot_turn_text [OF h1 h2, of later_env] h1 h2 show ?thesis by simp
qed

text \<open>
  C3, as amended. When the greeting request fails (a network error, a status that is not
  ok, or a body that cannot be read), \<^verbatim>\<open>fetchWelcome\<close> pushes one \<open>bot\<close> turn with
  the fixed greeting and the fixed metadata (confidence 1.0, no sources, not cached, no
  follow-up) at the end of the store, and it does nothing else: the error indicator keeps
  its value. The turn is the first one when the store is empty at that moment, as it is
  when the request settles right after the mount.
\<close>

theorem greeting_fallback:
  assumes "\<not> succeeded f"
  shows "\<exists>m. fetchWelcome_settle f e = [PushMessage m] \<and>
            msg_from m = Bot \<and>
            msg_text m = lit ''Hi there! I'm Chatty, how can I assist you today?'' \<and>
            msg_meta m =
              Some \<lparr>answer = Some (lit ''Hi there! I'm Chatty, how can I assist you today?''),
                    confidence = 1, sources = [], cached = False, follow_up = None,
                    redacted = None\<rparr> \<and>
            messages (run s (fetchWelcome_settle f e)) = messages s @ [m] \<and>
            error (run s (fetchWelcome_settle f e)) = error s \<and>
            messages (session API_BASE initial [Mounted, WelcomeSettled f e]) = [m] \<and>
            error (session API_BASE initial [Mounted, WelcomeSettled f e]) = None"
proof -
  from fetchWelcome_try_failed [OF assms] obtain err where "fetchWelcome_try f e = Inl err"
    by blast
  then have eff: "fetchWelcome_settle f e = [PushMessage (fallback_welcome e)]"
    by (simp add: fetchWelcome_settle_def)
  have "error (run s [PushMessage (fallback_welcome e)]) = error s"
    by (simp add: run_def pushMessage_def)
  moreover have "messages (session API_BASE initial [Mounted, WelcomeSettled f e]) = [fallback_welcome e]"
    by (simp add: session_def step_def fetchWelcome_start_def eff run_def pushMessage_def initial_def)
  moreover have "error (session API_BASE initial [Mounted, WelcomeSettled f e]) = None"
    by (simp add: session_def step_def fetchWelcome_start_def eff run_def pushMessage_def initial_def)
  ultimately show ?thesis
    by (simp add: eff messages_run fallback_welcome_def fallback_greeting_def)
qed

theorem greeting_fallback_witness:
  "\<not> succeeded (Inr error_response) \<and>
   (\<exists>m. fetchWelcome_settle (Inr error_response) sample_env = [PushMessage m] \<and>
        msg_from m = Bot \<and>
        msg_text m = lit ''Hi there! I'm Chatty, how can I assist you today?'' \<and>
        msg_meta m =
          Some \<lparr>answer = Some (lit ''Hi there! I'm Chatty, how can I assist you today?''),
                confidence = 1, sources = [], cached = False, follow_up = None,
                redacted = None\<rparr> \<and>
        messages (run initial (fetchWelcome_settle (Inr error_response) sample_env)) = [m] \<and>
        error (run initial (fetchWelcome_settle (Inr error_response) sample_env)) = None \<and>
        messages (session sample_base initial [Mounted, WelcomeSettled (Inr error_response) sample_env]) = [m])"
proof -
  have h: "\<not> succeeded (Inr error_response)"
    by (simp add: succeeded_def error_response_def)
  have i: "messages initial = []" and j: "error initial = None"
    by (simp_all add: initial_def)
  note r = greeting_fallback [OF h, where e = sample_env and s = initial and API_BASE = sample_base,
      unfolded i j append_Nil]
  from r h show ?thesis by blast
qed

text \<open>
  C3 as stated would make the fallback greeting the first turn. The composer is enabled
  while the greeting request is pending, so a question can be sent before that request
  fails; the store then holds the \<open>user\<close> turn first and the fallback greeting second.
\<close>

theorem greeting_first_counterexample:
  "\<not> succeeded (Inr error_response) \<and>
   map msg_from (messages (session sample_base initial early_send)) = [User, Bot] \<and>
   map msg_text (messages (session sample_base initial early_send)) =
     [lit ''hi'', lit ''Hi there! I'm Chatty, how can I assist you today?''] \<and>
   msg_from (hd (messages (session sample_base initial early_send))) \<noteq> Bot"
proof -
  have a: "\<not> succeeded (Inr error_response)"
    by (simp add: succeeded_def error_response_def)
  have b: "map msg_from (messages (session sample_base initial early_send)) = [User, Bot]"
    by (simp add: early_send_store fallback_welcome_def)
  have c: "map msg_text (messages (session sample_base initial early_send)) =
     [lit ''hi'', lit ''Hi there! I'm Chatty, how can I assist you today?'']"
    by (simp add: early_send_store fallback_welcome_def fallback_greeting_def)
  have d: "msg_from (hd (messages (session sample_base initial early_send))) \<noteq> Bot"
    by (simp add: early_send_store)
  from a b c d show ?thesis by blast
qed

text \<open>
  C4. When the effective input is empty or all whitespace, \<^verbatim>\<open>sendQuestion\<close> only sets
  the validation message: it pushes no turn, calls \<^verbatim>\<open>fetch\<close> not at all and leaves the
  loading flag as it was.
\<close>

theorem blank_input_rejected:
  assumes "list_all is_white_space (effective_question q s)"
  shows "sendQuestion_start API_BASE q s e = [SetError (Some (lit ''Please enter a question.''))] \<and>
         sendQuestion API_BASE q s e f e' = [SetError (Some (lit ''Please enter a question.''))] \<and>
         pushed (sendQuestion API_BASE q s e f e') = [] \<and>
         requests (sendQuestion API_BASE q s e f e') = [] \<and>
         messages (run s (sendQuestion API_BASE q s e f e')) = messages s \<and>
         loading (run s (sendQuestion API_BASE q s e f e')) = loading s \<and>
         error (run s (sendQuestion API_BASE q s e f e')) = Some (lit ''Please enter a question.'')"
proof -
  from assms have blank: "trim (effective_question q s) = []"
    by (simp only: trim_blank)
  note st = sendQuestion_start_blank [OF blank, of API_BASE e]
  have full: "sendQuestion API_BASE q s e f e' = [SetError (Some (lit ''Please enter a question.''))]"
    by (simp add: sendQuestion_def blank st)
  show ?thesis
    by (simp add: st full run_def)
qed

theorem blank_input_rejected_witness:
  "list_all is_white_space (effective_question None (initial\<lparr>question := [0x20, 0x9, 0xA0]\<rparr>)) \<and>
   sendQuestion sample_base None (initial\<lparr>question := [0x20, 0x9, 0xA0]\<rparr>) sample_env (Inr ok_response) later_env
     = [SetError (Some (lit ''Please enter a question.''))] \<and>
   messages (run (initial\<lparr>question := [0x20, 0x9, 0xA0]\<rparr>)
       (sendQuestion sample_base None (initial\<lparr>question := [0x20, 0x9, 0xA0]\<rparr>) sample_env (Inr ok_response) later_env)) = [] \<and>
   loading (run (initial\<lparr>question := [0x20, 0x9, 0xA0]\<rparr>)
       (sendQuestion sample_base None (initial\<lparr>question := [0x20, 0x9, 0xA0]\<rparr>) sample_env (Inr ok_response) later_env)) = False"
proof -
  have h: "list_all is_white_space (effective_question None (initial\<lparr>question := [0x20, 0x9, 0xA0]\<rparr>))"
    by (simp add: effective_question_def is_white_space_def)
  have "messages (initial\<lparr>question := [0x20, 0x9, 0xA0]\<rparr>) = []"
    and "loading (initial\<lparr>question := [0x20, 0x9, 0xA0]\<rparr>) = False"
    by (simp_all add: initial_def)
  with blank_input_rejected [OF h, of sample_base sample_env "Inr ok_response" later_env] h
  show ?thesis by (simp add: run_def)
qed

text \<open>
  C5. The message store only grows at its end. Every effect, and so every handler and
  every sequence of events, leaves the turns already stored where they were and as they
  were, and the turns it adds follow them in the order in which they were pushed.
\<close>

theorem store_append_only:
  "messages (run s es) = messages s @ pushed es \<and>
   messages (session API_BASE s evs) = messages s @ appended API_BASE s evs \<and>
   take (length (messages s)) (messages (session API_BASE s evs)) = messages s"
  by (simp add: messages_run messages_session)

theorem store_append_only_witness:
  "take 1 (messages (session sample_base greeted exchange)) = [fallback_welcome sample_env] \<and>
   map msg_from (messages (session sample_base greeted exchange)) = [Bot, User, Bot]"
proof -
  note r = store_append_only [of greeted "[]" sample_base exchange]
  have "msg_from (fallback_welcome sample_env) = Bot"
    by (simp add: fallback_welcome_def)
  with r show ?thesis by (simp add: greeted_messages exchange_origins)
qed

text \<open>
  C6, as amended. When a submission fails, with the error message \<open>t\<close>
  (\<^verbatim>\<open>Server <status>: <body>\<close> for a response that is not ok and whose body text was
  read, and otherwise the message of the underlying error, or \<^verbatim>\<open>Unknown error\<close> when
  it has none), the error indicator is set to \<open>t\<close>, and the text of the appended
  \<open>system\<close> turn is \<^verbatim>\<open>Error: \<close> followed by \<open>t\<close>. This holds for the part of
  \<^verbatim>\<open>sendQuestion\<close> that runs after the request settles, in any state, and for a whole
  call.
\<close>

theorem failure_surfaced:
  assumes "\<not> succeeded f"
  shows "(\<exists>t. failure_message f = Some t \<and>
            sendQuestion_settle f e' =
              [SetError (Some t),
               PushMessage \<lparr>msg_id = makeId (lit ''s_'') e', msg_from = System,
                            msg_text = lit ''Error: '' @ t, msg_time = nowLabel e',
                            msg_meta = None\<rparr>,
               SetLoading False] \<and>
            error (run s' (sendQuestion_settle f e')) = Some t \<and>
            map msg_from (pushed (sendQuestion_settle f e')) = [System] \<and>
            map msg_text (pushed (sendQuestion_settle f e')) = [lit ''Error: '' @ t] \<and>
            error (run s (sendQuestion API_BASE q s e f e')) =
              (if trim (effective_question q s) = [] then Some (lit ''Please enter a question.'')
               else Some t) \<and>
            map msg_text (pushed (sendQuestion API_BASE q s e f e')) =
              (if trim (effective_question q s) = [] then []
               else [trim (effective_question q s), lit ''Error: '' @ t])) \<and>
         failure_message (Inl (Thrown (Some msg))) = Some msg \<and>
         failure_message (Inl (Thrown None)) = Some (lit ''Unknown error'') \<and>
         failure_message (Inr \<lparr>resp_ok = False, resp_status = n, resp_text = Inr txt, resp_json = j\<rparr>)
           = Some (lit ''Server '' @ toString n @ lit '': '' @ txt) \<and>
         failure_message (Inr \<lparr>resp_ok = False, resp_status = n, resp_text = Inl (Thrown (Some msg)),
                               resp_json = j\<rparr>)
           = Some msg \<and>
         failure_message (Inr \<lparr>resp_ok = True, resp_status = n, resp_text = b,
                               resp_json = Inl (Thrown (Some msg))\<rparr>)
           = Some msg"
proof -
  from sendQuestion_try_failed [OF assms, of e'] obtain err where
    thr: "sendQuestion_try f e' = Inl err" and fm: "failure_message f = Some (error_message err)"
    by blast
  let ?t = "error_message err"
  note eff = sendQuestion_settle_thrown [OF thr]
  have a: "error (run s' (sendQuestion_settle f e')) = Some ?t"
    by (simp add: eff run_def pushMessage_def)
  have b: "map msg_from (pushed (sendQuestion_settle f e')) = [System]"
    by (simp add: eff)
  have c: "map msg_text (pushed (sendQuestion_settle f e')) = [lit ''Error: '' @ ?t]"
    by (simp add: eff)
  have d: "error (run s (sendQuestion API_BASE q s e f e')) =
              (if trim (effective_question q s) = [] then Some (lit ''Please enter a question.'')
               else Some ?t)"
  proof (cases "trim (effective_question q s) = []")
    case True
    then show ?thesis by (simp add: sendQuestion_blank run_def)
  next
    case False
    then show ?thesis
      by (simp add: sendQuestion_nonblank sendQuestion_start_nonblank eff run_def pushMessage_def)
  qed
  have g: "map msg_text (pushed (sendQuestion API_BASE q s e f e')) =
              (if trim (effective_question q s) = [] then []
               else [trim (effective_question q s), lit ''Error: '' @ ?t])"
  proof (cases "trim (effective_question q s) = []")
    case True
    then show ?thesis by (simp add: sendQuestion_blank)
  next
    case False
    then show ?thesis
      by (simp add: sendQuestion_nonblank sendQuestion_start_nonblank eff)
  qed
  have k: "failure_message (Inl (Thrown (Some msg))) = Some msg"
    "failure_message (Inl (Thrown None)) = Some (lit ''Unknown error'')"
    "failure_message (Inr \<lparr>resp_ok = False, resp_status = n, resp_text = Inr txt, resp_json = j\<rparr>)
           = Some (lit ''Server '' @ toString n @ lit '': '' @ txt)"
    "failure_message (Inr \<lparr>resp_ok = False, resp_status = n, resp_text = Inl (Thrown (Some msg)),
                               resp_json = j\<rparr>) = Some msg"
    "failure_message (Inr \<lparr>resp_ok = True, resp_status = n, resp_text = b,
                               resp_json = Inl (Thrown (Some msg))\<rparr>) = Some msg"
    by (simp_all add: failure_message_def error_message_def)
  from fm eff a b c d g k show ?thesis by (intro conjI exI [of _ ?t])
qed

theorem failure_surfaced_witness:
  "\<not> succeeded (Inr error_response) \<and>
   failure_message (Inr error_response) = Some (lit ''Server 500: boom'') \<and>
   error (run initial (sendQuestion_settle (Inr error_response) later_env)) = Some (lit ''Server 500: boom'') \<and>
   map msg_from (pushed (sendQuestion_settle (Inr error_response) later_env)) = [System] \<and>
   map msg_text (pushed (sendQuestion_settle (Inr error_response) later_env))
     = [lit ''Error: '' @ lit ''Server 500: boom''] \<and>
   map msg_text (pushed (sendQuestion sample_base (Some (lit ''  hello '')) initial sample_env
       (Inr error_response) later_env))
     = [lit ''hello'', lit ''Error: '' @ lit ''Server 500: boom''] \<and>
   \<not> succeeded (Inr unreadable_response) \<and>
   error (run initial (sendQuestion_settle (Inr unreadable_response) later_env))
     = Some (lit ''body stream error'') \<and>
   map msg_text (pushed (sendQuestion_settle (Inr unreadable_response) later_env))
     = [lit ''Error: '' @ lit ''body stream error'']"
proof -
  have h: "\<not> succeeded (Inr error_response)"
    by (simp add: succeeded_def error_response_def)
  have h': "\<not> succeeded (Inr unreadable_response)"
    by (simp add: succeeded_def unreadable_response_def)
  have m: "failure_message (Inr error_response) = Some (lit ''Server 500: boom'')"
    by (simp add: failure_message_def error_response_def toString_500) (simp add: lit_def)
  have m': "failure_message (Inr unreadable_response) = Some (lit ''body stream error'')"
    by (simp add: failure_message_def unreadable_response_def error_message_def)
  have t: "trim (effective_question (Some (lit ''  hello '')) initial) = lit ''hello''"
    by (simp add: effective_question_def trim_hello)
  have ne: "lit ''hello'' \<noteq> []" by (simp add: lit_def)
  note a = failure_surfaced [OF h, where e' = later_env and s' = initial and API_BASE = sample_base
      and q = "Some (lit ''  hello '')" and s = initial and e = sample_env, THEN conjunct1,
      unfolded t if_not_P [OF ne]]
  have A: "error (run initial (sendQuestion_settle (Inr error_response) later_env)) = Some (lit ''Server 500: boom'') \<and>
   map msg_from (pushed (sendQuestion_settle (Inr error_response) later_env)) = [System] \<and>
   map msg_text (pushed (sendQuestion_settle (Inr error_response) later_env))
     = [lit ''Error: '' @ lit ''Server 500: boom''] \<and>
   map msg_text (pushed (sendQuestion sample_base (Some (lit ''  hello '')) initial sample_env
       (Inr error_response) later_env))
     = [lit ''hello'', lit ''Error: '' @ lit ''Server 500: boom'']"
    using a m by (elim exE conjE) simp
  note b = failure_surfaced [OF h', where e' = later_env and s' = initial and API_BASE = sample_base
      and q = "Some (lit ''  hello '')" and s = initial and e = sample_env, THEN conjunct1]
  have B: "error (run initial (sendQuestion_settle (Inr unreadable_response) later_env))
     = Some (lit ''body stream error'') \<and>
   map msg_text (pushed (sendQuestion_settle (Inr unreadable_response) later_env))
     = [lit ''Error: '' @ lit ''body stream error'']"
    using b m' by (elim exE conjE) simp
  from h m A h' B show ?thesis by (simp only: simp_thms)
qed

text \<open>
  C6 as stated would make the text of the \<open>system\<close> turn the error message itself. For
  a response with status 500 and body \<^verbatim>\<open>boom\<close> the indicator shows
  \<^verbatim>\<open>Server 500: boom\<close> and the turn shows \<^verbatim>\<open>Error: Server 500: boom\<close>.
\<close>

theorem system_turn_text_counterexample:
  "\<not> succeeded (Inr error_response) \<and>
   error (run initial (sendQuestion_settle (Inr error_response) later_env)) = Some (lit ''Server 500: boom'') \<and>
   map msg_text (pushed (sendQuestion_settle (Inr error_response) later_env)) = [lit ''Error: Server 500: boom''] \<and>
   lit ''Error: Server 500: boom'' \<noteq> lit ''Server 500: boom''"
proof -
  have t: "sendQuestion_try (Inr error_response) later_env = Inl (Thrown (Some (lit ''Server 500: boom'')))"
    by (simp add: sendQuestion_try_def error_response_def toString_500) (simp add: lit_def)
  note eff = sendQuestion_settle_failed [OF t]
  have a: "\<not> succeeded (Inr error_response)"
    by (simp add: succeeded_def error_response_def)
  have b: "error (run initial (sendQuestion_settle (Inr error_response) later_env)) = Some (lit ''Server 500: boom'')"
    by (simp add: eff run_def pushMessage_def)
  have c: "map msg_text (pushed (sendQuestion_settle (Inr error_response) later_env)) = [lit ''Error: Server 500: boom'']"
    by (simp add: eff) (simp add: lit_def)
  have "length (lit ''Error: Server 500: boom'') \<noteq> length (lit ''Server 500: boom'')"
    by (simp add: lit_def)
  then have d: "lit ''Error: Server 500: boom'' \<noteq> lit ''Server 500: boom''"
    by auto
  from a b c d show ?thesis by blast
qed

text \<open>
  C7. When a call of \<^verbatim>\<open>sendQuestion\<close> sends a request, it first clears the error
  indicator and sets the loading flag: both hold at the moment \<^verbatim>\<open>fetch\<close> is called.
  Its last effect, when the request has settled with any outcome, clears the loading flag,
  so the flag is cleared after the call. The part of the call that runs after the request
  settles leaves the flag cleared in any state.
\<close>

theorem loading_flag_bracket:
  assumes "trim (effective_question q s) \<noteq> []"
  shows "sendQuestion API_BASE q s e f e' =
           sendQuestion_start API_BASE q s e @ sendQuestion_settle f e' \<and>
         hd (sendQuestion API_BASE q s e f e') = SetError None \<and>
         length (requests (sendQuestion API_BASE q s e f e')) = 1 \<and>
         error (run s (before_fetch (sendQuestion API_BASE q s e f e'))) = None \<and>
         loading (run s (before_fetch (sendQuestion API_BASE q s e f e'))) = True \<and>
         last (sendQuestion API_BASE q s e f e') = SetLoading False \<and>
         loading (run s (sendQuestion API_BASE q s e f e')) = False \<and>
         hd (sendQuestion_start API_BASE q s e) = SetError None \<and>
         length (requests (sendQuestion_start API_BASE q s e)) = 1 \<and>
         error (run s (before_fetch (sendQuestion_start API_BASE q s e))) = None \<and>
         loading (run s (before_fetch (sendQuestion_start API_BASE q s e))) = True \<and>
         loading (run s (sendQuestion_start API_BASE q s e)) = True \<and>
         loading (run s' (sendQuestion_settle f e')) = False"
proof -
  note st = sendQuestion_start_nonblank [OF assms, of API_BASE e]
  note full = sendQuestion_nonblank [OF assms, of API_BASE e f e']
  obtain es where settle: "sendQuestion_settle f e' = es @ [SetLoading False]"
    by (simp add: sendQuestion_settle_def)
  have bf: "before_fetch (sendQuestion API_BASE q s e f e') = before_fetch (sendQuestion_start API_BASE q s e)"
    by (simp add: full) (simp add: st)
  have s1: "hd (sendQuestion_start API_BASE q s e) = SetError None"
    by (simp add: st)
  have s2: "length (requests (sendQuestion_start API_BASE q s e)) = 1"
    by (simp add: st)
  have s3: "error (run s (before_fetch (sendQuestion_start API_BASE q s e))) = None"
    by (simp add: st run_def pushMessage_def)
  have s4: "loading (run s (before_fetch (sendQuestion_start API_BASE q s e))) = True"
    by (simp add: st run_def pushMessage_def)
  have s5: "loading (run s (sendQuestion_start API_BASE q s e)) = True"
    by (simp add: st run_def pushMessage_def)
  have t1: "loading (run s' (sendQuestion_settle f e')) = False"
    by (simp add: settle run_def)
  have f1: "hd (sendQuestion API_BASE q s e f e') = SetError None"
    by (simp add: full) (simp add: st)
  have f2: "length (requests (sendQuestion API_BASE q s e f e')) = 1"
    by (simp add: full requests_append requests_settle s2)
  have f3: "error (run s (before_fetch (sendQuestion API_BASE q s e f e'))) = None"
    by (simp only: bf s3)
  have f4: "loading (run s (before_fetch (sendQuestion API_BASE q s e f e'))) = True"
    by (simp only: bf s4)
  have f5: "last (sendQuestion API_BASE q s e f e') = SetLoading False"
    by (simp add: full settle)
  have f6: "loading (run s (sendQuestion API_BASE q s e f e')) = False"
    by (simp add: full settle run_def)
  from full f1 f2 f3 f4 f5 f6 s1 s2 s3 s4 s5 t1 show ?thesis by blast
qed

theorem loading_flag_bracket_witness:
  "trim (effective_question (Some (lit ''  hello '')) (initial\<lparr>error := Some (lit ''Server 500: boom'')\<rparr>)) \<noteq> [] \<and>
   error (run (initial\<lparr>error := Some (lit ''Server 500: boom'')\<rparr>)
     (before_fetch (sendQuestion sample_base (Some (lit ''  hello ''))
        (initial\<lparr>error := Some (lit ''Server 500: boom'')\<rparr>) sample_env (Inr error_response) later_env))) = None \<and>
   loading (run (initial\<lparr>error := Some (lit ''Server 500: boom'')\<rparr>)
     (before_fetch (sendQuestion sample_base (Some (lit ''  hello ''))
        (initial\<lparr>error := Some (lit ''Server 500: boom'')\<rparr>) sample_env (Inr error_response) later_env))) = True \<and>
   loading (run (initial\<lparr>error := Some (lit ''Server 500: boom'')\<rparr>)
     (sendQuestion sample_base (Some (lit ''  hello ''))
        (initial\<lparr>error := Some (lit ''Server 500: boom'')\<rparr>) sample_env (Inr error_response) later_env)) = False \<and>
   loading (run (initial\<lparr>loading := True\<rparr>) (sendQuestion_settle (Inr error_response) later_env)) = False"
proof -
  have h: "trim (effective_question (Some (lit ''  hello '')) (initial\<lparr>error := Some (lit ''Server 500: boom'')\<rparr>)) \<noteq> []"
    by (simp add: effective_question_def trim_hello) (simp add: lit_def)
  note r = loading_flag_bracket [OF h, where API_BASE = sample_base and e = sample_env
      and f = "Inr error_response" and e' = later_env and s' = "initial\<lparr>loading := True\<rparr>"]
  from r h show ?thesis by blast
qed

text \<open>
  C8, as amended. Activating a rendered follow-up suggestion with text \<open>follow\<close> calls
  \<^verbatim>\<open>sendQuestion\<close> with that text as its argument, so the draft plays no part. The
  question sent, and the text of the \<open>user\<close> turn, is \<open>follow\<close> trimmed; when the
  trimmed text is empty nothing is sent and no turn is pushed.
\<close>

theorem follow_up_click_submits_trimmed:
  assumes "rendered_follow_up m = Some follow"
  shows "handleFollowUpClick API_BASE follow (s\<lparr>question := draft\<rparr>) e
           = handleFollowUpClick API_BASE follow s e \<and>
         handleFollowUpClick API_BASE follow s e = sendQuestion_start API_BASE (Some follow) s e \<and>
         requests (handleFollowUpClick API_BASE follow s e) =
           (if trim follow = [] then []
            else [Post (chat_url API_BASE) (lit ''web_user'') (trim follow)]) \<and>
         map msg_text (pushed (handleFollowUpClick API_BASE follow s e)) =
           (if trim follow = [] then [] else [trim follow])"
  by (simp add: handleFollowUpClick_def sendQuestion_start_ignores_draft requests_start
      pushed_start effective_question_def)

theorem follow_up_click_submits_trimmed_witness:
  "rendered_follow_up padded_turn = Some (lit '' Which plan?'') \<and>
   handleFollowUpClick sample_base (lit '' Which plan?'') (initial\<lparr>question := lit ''draft''\<rparr>) sample_env
     = handleFollowUpClick sample_base (lit '' Which plan?'') initial sample_env \<and>
   requests (handleFollowUpClick sample_base (lit '' Which plan?'') initial sample_env) =
     [Post (chat_url sample_base) (lit ''web_user'') (lit ''Which plan?'')]"
proof -
  note h = rendered_padded
  have ne: "lit ''Which plan?'' \<noteq> []" by (simp add: lit_def)
  note r = follow_up_click_submits_trimmed [OF h, where API_BASE = sample_base and s = initial
        and draft = "lit ''draft''" and e = sample_env, unfolded trim_plan if_not_P [OF ne]]
  from h r show ?thesis by blast
qed

text \<open>
  C8 as stated would send the suggestion's text unchanged. A suggestion that starts with a
  space is rendered, and activating it sends the text without the space.
\<close>

theorem follow_up_question_counterexample:
  "rendered_follow_up padded_turn = Some (lit '' Which plan?'') \<and>
   requests (handleFollowUpClick sample_base (lit '' Which plan?'') initial sample_env) =
     [Post (chat_url sample_base) (lit ''web_user'') (lit ''Which plan?'')] \<and>
   lit ''Which plan?'' \<noteq> lit '' Which plan?''"
proof -
  have ne: "lit ''Which plan?'' \<noteq> []" by (simp add: lit_def)
  have r: "requests (handleFollowUpClick sample_base (lit '' Which plan?'') initial sample_env) =
     [Post (chat_url sample_base) (lit ''web_user'') (lit ''Which plan?'')]"
    using ne by (simp add: handleFollowUpClick_def requests_start effective_question_def trim_plan)
  have "length (lit ''Which plan?'') \<noteq> length (lit '' Which plan?'')"
    by (simp add: lit_def)
  then have d: "lit ''Which plan?'' \<noteq> lit '' Which plan?''" by auto
  from rendered_padded r d show ?thesis by blast
qed

text \<open>
  C9, as amended. The \<open>user\<close> turns that \<^verbatim>\<open>sendQuestion\<close> pushes are: none when the
  trimmed input is empty, and otherwise exactly one, whose text is the trimmed input. The
  trimmed input is the input without a leading and a trailing run of whitespace, and
  trimming it again changes nothing.
\<close>

theorem user_turn_text_trimmed:
  "map msg_text (filter (\<lambda>m. msg_from m = User) (pushed (sendQuestion API_BASE q s e f e'))) =
     (if trim (effective_question q s) = [] then [] else [trim (effective_question q s)]) \<and>
   (\<exists>a b. effective_question q s = a @ trim (effective_question q s) @ b \<and>
          list_all is_white_space a \<and> list_all is_white_space b) \<and>
   trim (trim (effective_question q s)) = trim (effective_question q s)"
proof -
  have "map msg_text (filter (\<lambda>m. msg_from m = User) (pushed (sendQuestion API_BASE q s e f e'))) =
     (if trim (effective_question q s) = [] then [] else [trim (effective_question q s)])"
    by (simp add: sendQuestion_def pushed_append pushed_start user_pushed_settle)
  with trim_decomp [of "effective_question q s"] trim_idem [of "effective_question q s"]
  show ?thesis by (simp only: simp_thms)
qed

theorem user_turn_text_trimmed_witness:
  "map msg_text (filter (\<lambda>m. msg_from m = User)
      (pushed (sendQuestion sample_base None (initial\<lparr>question := lit ''  hello ''\<rparr>) sample_env
         (Inr ok_response) later_env))) = [lit ''hello'']"
proof -
  have t: "trim (effective_question None (initial\<lparr>question := lit ''  hello ''\<rparr>)) = lit ''hello''"
    by (simp add: effective_question_def trim_hello)
  have ne: "lit ''hello'' \<noteq> []" by (simp add: lit_def)
  from user_turn_text_trimmed [of sample_base None "initial\<lparr>question := lit ''  hello ''\<rparr>"
      sample_env "Inr ok_response" later_env]
  show ?thesis unfolding t using ne by simp
qed

text \<open>
  C9 as stated would store the input verbatim. For the draft \<^verbatim>\<open>  hello \<close>, with two
  spaces before and one after, the \<open>user\<close> turn stores \<^verbatim>\<open>hello\<close>.
\<close>

theorem user_turn_verbatim_counterexample:
  "effective_question None (initial\<lparr>question := lit ''  hello ''\<rparr>) = lit ''  hello '' \<and>
   map msg_text (pushed (sendQuestion_start sample_base None (initial\<lparr>question := lit ''  hello ''\<rparr>)
       sample_env)) = [lit ''hello''] \<and>
   map msg_from (pushed (sendQuestion_start sample_base None (initial\<lparr>question := lit ''  hello ''\<rparr>)
       sample_env)) = [User] \<and>
   lit ''hello'' \<noteq> lit ''  hello ''"
proof -
  have q: "effective_question None (initial\<lparr>question := lit ''  hello ''\<rparr>) = lit ''  hello ''"
    by (simp add: effective_question_def)
  have ne: "lit ''hello'' \<noteq> []" by (simp add: lit_def)
  have a: "map msg_text (pushed (sendQuestion_start sample_base None
       (initial\<lparr>question := lit ''  hello ''\<rparr>) sample_env)) = [lit ''hello'']"
    using ne by (simp add: pushed_start q trim_hello)
  have b: "map msg_from (pushed (sendQuestion_start sample_base None
       (initial\<lparr>question := lit ''  hello ''\<rparr>) sample_env)) = [User]"
    using ne by (simp add: pushed_start q trim_hello)
  have "length (lit ''hello'') \<noteq> length (lit ''  hello '')" by (simp add: lit_def)
  then have d: "lit ''hello'' \<noteq> lit ''  hello ''" by auto
  from q a b d show ?thesis by blast
qed

text \<open>
  C10. After a successful greeting request whose body parsed to the reply \<open>data\<close>, the
  bot turn shows the reply's \<open>answer\<close> when it is neither \<open>null\<close> nor empty, and
  the literal \<^verbatim>\<open>Hi there!\<close> otherwise. The text does not depend on the reply's
  \<open>follow_up\<close>, and it is \<^verbatim>\<open>I don't know.\<close> only when that is the answer itself.
\<close>

theorem greeting_text:
  assumes "resp_ok resp" and "resp_json resp = Inr data"
  shows "(\<exists>m. fetchWelcome_settle (Inr resp) e = [PushMessage m] \<and>
             msg_from m = Bot \<and>
             msg_text m =
               (case answer data of
                  None \<Rightarrow> lit ''Hi there!''
                | Some a \<Rightarrow> if a = [] then lit ''Hi there!'' else a) \<and>
             msg_meta m = Some data) \<and>
         map msg_text (pushed (fetchWelcome_settle (Inr (resp\<lparr>resp_json := Inr (data\<lparr>follow_up := fu\<rparr>)\<rparr>)) e))
           = map msg_text (pushed (fetchWelcome_settle (Inr resp) e)) \<and>
         (map msg_text (pushed (fetchWelcome_settle (Inr resp) e)) = [lit ''I don't know.'']
            \<longleftrightarrow> answer data = Some (lit ''I don't know.''))"
proof -
  note t = fetchWelcome_try_ok [OF assms, of e]
  have ok': "resp_ok (resp\<lparr>resp_json := Inr (data\<lparr>follow_up := fu\<rparr>)\<rparr>)"
    using assms(1) by simp
  have js': "resp_json (resp\<lparr>resp_json := Inr (data\<lparr>follow_up := fu\<rparr>)\<rparr>) = Inr (data\<lparr>follow_up := fu\<rparr>)"
    by simp
  note t' = fetchWelcome_try_ok [OF ok' js', of e]
  have a: "\<exists>m. fetchWelcome_settle (Inr resp) e = [PushMessage m] \<and>
             msg_from m = Bot \<and>
             msg_text m =
               (case answer data of
                  None \<Rightarrow> lit ''Hi there!''
                | Some a \<Rightarrow> if a = [] then lit ''Hi there!'' else a) \<and>
             msg_meta m = Some data"
    by (simp add: fetchWelcome_settle_def t welcomeText_def)
  have b: "map msg_text (pushed (fetchWelcome_settle (Inr (resp\<lparr>resp_json := Inr (data\<lparr>follow_up := fu\<rparr>)\<rparr>)) e))
           = map msg_text (pushed (fetchWelcome_settle (Inr resp) e))"
    by (simp add: fetchWelcome_settle_def t t' welcomeText_follow_up)
  have c: "map msg_text (pushed (fetchWelcome_settle (Inr resp) e)) = [lit ''I don't know.'']
            \<longleftrightarrow> answer data = Some (lit ''I don't know.'')"
    by (simp add: fetchWelcome_settle_def t welcomeText_unknown)
  from a b c show ?thesis by blast
qed

theorem greeting_text_witness:
  "resp_ok ok_response \<and> resp_json ok_response = Inr sample_reply \<and>
   answer sample_reply = None \<and> follow_up sample_reply = Some (lit ''Which plan?'') \<and>
   (\<exists>m. fetchWelcome_settle (Inr ok_response) sample_env = [PushMessage m] \<and>
        msg_from m = Bot \<and> msg_text m = lit ''Hi there!'' \<and> msg_meta m = Some sample_reply)"
proof -
  have h1: "resp_ok ok_response" and h2: "resp_json ok_response = Inr sample_reply"
    by (simp_all add: ok_response_def)
  have a: "answer sample_reply = None" and f: "follow_up sample_reply = Some (lit ''Which plan?'')"
    by (simp_all add: sample_reply_def)
  note r = greeting_text [OF h1 h2, of sample_env None, unfolded a option.case]
  from r have "\<exists>m. fetchWelcome_settle (Inr ok_response) sample_env = [PushMessage m] \<and>
        msg_from m = Bot \<and> msg_text m = lit ''Hi there!'' \<and> msg_meta m = Some sample_reply"
    by (rule conjunct1)
  with h1 h2 a f show ?thesis by blast
qed

end
